theory Spec2Isabelle
  imports Complex_Main "HOL-Library.Signed_Division"
begin

section \<open>The Spark History Server demo job (jobs/spark_history_demo.py)\<close>

text \<open>
  The job is one straight-line function, \<^verbatim>\<open>run_complex_spark_job\<close>, that drives a
  dataframe engine. The embedding keeps the order of the source: every call into the
  engine that has an effect (session, storage, catalog, an action that runs a job) is an
  entry of a call log, a DataFrame is the list of its rows, an exception is the left
  summand of the result, and the object store is a map from locations to datasets.

  What the source leaves to the engine is a parameter of the model (record \<open>engine\<close>):
  the numbers drawn by \<^verbatim>\<open>rand()\<close>, the two approximate aggregates, which engine calls
  raise, and what other clients of the object store do to it before the job reads it
  back. Columns of type double are real numbers, and no column holds a null: the job
  computes none. The order of the rows of a DataFrame is an artefact of the model;
  \<^verbatim>\<open>repartition\<close> changes only the distribution of rows over partitions and is the
  identity here. The \<^verbatim>\<open>print\<close> statements are not modelled.
\<close>

subsection \<open>Rows of the successive DataFrames\<close>

text \<open>\<^verbatim>\<open>df\<close>: columns id, value, group (lines 72-76 and 96).\<close>

record raw_row =
  id_col :: int
  value_col :: real
  group_col :: int

text \<open>\<^verbatim>\<open>df1\<close> adds random and complex_calc (lines 112-116).\<close>

record df1_row = raw_row +
  random_col :: real
  complex_calc :: real

text \<open>\<^verbatim>\<open>df2\<close>: one row per group with count, sum, avg, median (lines 120-126).\<close>

record df2_row =
  df2_group :: int
  df2_count :: nat
  df2_sum :: real
  df2_avg :: real
  df2_median :: real

text \<open>\<^verbatim>\<open>df3\<close>: \<^verbatim>\<open>df1\<close> joined with \<^verbatim>\<open>df2\<close> on group (line 130).\<close>

record df3_row = df1_row +
  count_col :: nat
  sum_col :: real
  avg :: real
  median :: real

text \<open>\<^verbatim>\<open>df4\<close>, the ranked dataset: three window columns (lines 134-138).\<close>

record df4_row = df3_row +
  row_number :: nat
  rank_col :: nat
  dense_rank :: nat

text \<open>\<^verbatim>\<open>sql_result\<close> (lines 146-157).\<close>

record sql_row =
  sql_group :: int
  avg_calc :: real
  max_random :: real
  min_random :: real
  distinct_ids :: int

text \<open>\<^verbatim>\<open>final_result\<close> (lines 165-172). The sample standard deviation of a single
  value is null.\<close>

record final_row =
  final_group :: int
  final_count :: nat
  sum_calc :: real
  avg_random :: real
  max_row_num :: nat
  std_dev :: "real option"

subsection \<open>Schema, object store, engine calls\<close>

datatype data_type = LongType | DoubleType

datatype struct_field =
  StructField (field_name: string) (field_type: data_type) (nullable: bool)

datatype dataset =
    RawData "raw_row list"
  | SqlResults "sql_row list"
  | FinalResults "final_row list"

type_synonym object_store = "string \<rightharpoonup> dataset"

text \<open>The calls into the engine that the job makes and that have an effect, in the
  vocabulary of the source. \<open>WriteParquet mode path\<close> is
  \<^verbatim>\<open>df.write.mode(mode).parquet(path)\<close>.\<close>

datatype call =
    GetOrCreate
  | WriteParquet string string
  | SetJobDescription string
  | Count
  | ReadParquet "struct_field list" string
  | Persist
  | CreateOrReplaceTempView string
  | Sql
  | Show nat
  | Stop

text \<open>Both checks of the source raise \<^verbatim>\<open>ValueError\<close>; every failure of the engine
  propagates unchanged.\<close>

datatype error = ValueError string | EngineError call

record engine =
  rand_value :: "nat \<Rightarrow> real"
  rand_random :: "nat \<Rightarrow> real"
  percentile_approx :: "real list \<Rightarrow> real \<Rightarrow> real"
  approx_count_distinct :: "int list \<Rightarrow> int"
  fails :: "nat \<Rightarrow> bool"
  outside :: "object_store \<Rightarrow> object_store"

text \<open>
  \<open>rand_value\<close> and \<open>rand_random\<close> give the number drawn for the row at a position.
  \<open>fails n\<close> says that the engine call number \<open>n\<close> of the run (counted from 0) raises.
  \<open>outside\<close> is what the rest of the world has done to the object store by the time the
  job reads from it.
\<close>

record world =
  store :: object_store
  views :: "string \<rightharpoonup> df4_row list"
  session_active :: bool
  calls :: "call list"

definition initial_world :: "object_store \<Rightarrow> world" where
  "initial_world st = \<lparr>store = st, views = Map.empty, session_active = False, calls = []\<rparr>"

subsection \<open>Sequencing with exceptions\<close>

type_synonym 'a job = "world \<Rightarrow> (error + 'a) \<times> world"

definition return :: "'a \<Rightarrow> 'a job" where
  "return x w = (Inr x, w)"

definition raise :: "error \<Rightarrow> 'a job" where
  "raise e w = (Inl e, w)"

definition bind :: "'a job \<Rightarrow> ('a \<Rightarrow> 'b job) \<Rightarrow> 'b job" where
  "bind m k w = (case m w of (Inl e, w') \<Rightarrow> (Inl e, w') | (Inr x, w') \<Rightarrow> k x w')"

definition modify :: "(world \<Rightarrow> world) \<Rightarrow> unit job" where
  "modify f w = (Inr (), f w)"

text \<open>An engine call is logged when it is made, and raises if the engine says so.\<close>

definition invoke :: "engine \<Rightarrow> call \<Rightarrow> unit job" where
  "invoke eng c w =
     (if fails eng (length (calls w))
      then (Inl (EngineError c), w\<lparr>calls := calls w @ [c]\<rparr>)
      else (Inr (), w\<lparr>calls := calls w @ [c]\<rparr>))"

subsection \<open>Engine operations used by the job\<close>

text \<open>\<^verbatim>\<open>create_spark_session\<close> (lines 45-48).\<close>

definition create_spark_session :: "engine \<Rightarrow> unit job" where
  "create_spark_session eng =
     bind (invoke eng GetOrCreate) (\<lambda>_. modify (\<lambda>w. w\<lparr>session_active := True\<rparr>))"

definition stop :: "engine \<Rightarrow> unit job" where
  "stop eng = bind (invoke eng Stop) (\<lambda>_. modify (\<lambda>w. w\<lparr>session_active := False\<rparr>))"

text \<open>\<^verbatim>\<open>df.write.mode("overwrite").parquet(path)\<close>: whatever was at the location is
  replaced. A write that raises leaves the store as it was.\<close>

definition write_overwrite_parquet :: "engine \<Rightarrow> string \<Rightarrow> dataset \<Rightarrow> unit job" where
  "write_overwrite_parquet eng path ds =
     bind (invoke eng (WriteParquet ''overwrite'' path))
       (\<lambda>_. modify (\<lambda>w. w\<lparr>store := (store w)(path \<mapsto> ds)\<rparr>))"

text \<open>\<^verbatim>\<open>spark.read.schema(schema).parquet(path)\<close>: the job sees the store as the rest of
  the world has left it. A missing location, or one that does not hold a dataset of the
  three declared columns, is a failure of the engine.\<close>

definition read_parquet :: "engine \<Rightarrow> struct_field list \<Rightarrow> string \<Rightarrow> raw_row list job" where
  "read_parquet eng sch path =
     bind (invoke eng (ReadParquet sch path)) (\<lambda>_.
     bind (modify (\<lambda>w. w\<lparr>store := outside eng (store w)\<rparr>)) (\<lambda>_ w.
       (case store w path of
          Some (RawData rows) \<Rightarrow> (Inr rows, w)
        | _ \<Rightarrow> (Inl (EngineError (ReadParquet sch path)), w))))"

text \<open>\<^verbatim>\<open>df.count()\<close>.\<close>

definition count :: "engine \<Rightarrow> 'r list \<Rightarrow> nat job" where
  "count eng df = bind (invoke eng Count) (\<lambda>_. return (length df))"

definition create_or_replace_temp_view :: "engine \<Rightarrow> string \<Rightarrow> df4_row list \<Rightarrow> unit job" where
  "create_or_replace_temp_view eng name df =
     bind (invoke eng (CreateOrReplaceTempView name))
       (\<lambda>_. modify (\<lambda>w. w\<lparr>views := (views w)(name \<mapsto> df)\<rparr>))"

subsection \<open>The DataFrames of the job\<close>

text \<open>\<^verbatim>\<open>spark.range(lo, hi)\<close>: the column id, from \<open>lo\<close> up to \<open>hi - 1\<close>.\<close>

definition spark_range :: "nat \<Rightarrow> nat \<Rightarrow> int list" where
  "spark_range lo hi = map int [lo..<hi]"

text \<open>Lines 72-76: the generated dataset, with value drawn by \<^verbatim>\<open>rand()\<close> and group
  computed as \<^verbatim>\<open>col("id") % 1000\<close>. Column arithmetic on longs is Java's: the remainder
  takes the sign of the dividend (\<open>smod\<close>).\<close>

definition initial_dataset :: "engine \<Rightarrow> raw_row list" where
  "initial_dataset eng =
     map (\<lambda>(i, k). \<lparr>id_col = k, value_col = rand_value eng i, group_col = k smod 1000\<rparr>)
       (enumerate 0 (spark_range 0 10000000))"

text \<open>Lines 88-92: the schema of the re-read. The third argument of
  \<^verbatim>\<open>StructField\<close> is \<^verbatim>\<open>nullable\<close>.\<close>

definition schema :: "struct_field list" where
  "schema = [StructField ''id'' LongType True,
             StructField ''value'' DoubleType True,
             StructField ''group'' LongType True]"

text \<open>\<^verbatim>\<open>df.repartition(n)\<close> keeps the rows.\<close>

definition repartition :: "nat \<Rightarrow> 'r list \<Rightarrow> 'r list" where
  "repartition n df = df"

text \<open>Lines 112-116: \<^verbatim>\<open>df1\<close>. The column group is computed again from id.\<close>

definition transform :: "engine \<Rightarrow> raw_row list \<Rightarrow> df1_row list" where
  "transform eng df =
     repartition 200
       (map (\<lambda>(i, r). \<lparr>id_col = id_col r, value_col = value_col r,
                       group_col = id_col r smod 1000,
                       random_col = rand_random eng i,
                       complex_calc = (rand_random eng i) ^ 2 + sin (real_of_int (id_col r))\<rparr>)
          (enumerate 0 df))"

text \<open>\<^verbatim>\<open>groupBy("group")\<close>: the keys are the distinct values of the column, and the rows
  of a key are the rows that carry it.\<close>

definition rows_of_group :: "int \<Rightarrow> ('a raw_row_scheme) list \<Rightarrow> ('a raw_row_scheme) list" where
  "rows_of_group g df = filter (\<lambda>r. group_col r = g) df"

definition group_keys :: "('a raw_row_scheme) list \<Rightarrow> int list" where
  "group_keys df = remdups (map group_col df)"

text \<open>Lines 120-126: \<^verbatim>\<open>df2\<close>.\<close>

definition aggregate :: "engine \<Rightarrow> df1_row list \<Rightarrow> df2_row list" where
  "aggregate eng df1 =
     map (\<lambda>g. let rows = rows_of_group g df1 in
            \<lparr>df2_group = g,
             df2_count = length rows,
             df2_sum = sum_list (map complex_calc rows),
             df2_avg = sum_list (map random_col rows) / real (length rows),
             df2_median = percentile_approx eng (map random_col rows) 0.5\<rparr>)
       (group_keys df1)"

text \<open>Line 130: \<^verbatim>\<open>df1.join(broadcast(df2), "group")\<close>, an inner join on the column
  group.\<close>

definition join_on_group :: "df1_row list \<Rightarrow> df2_row list \<Rightarrow> df3_row list" where
  "join_on_group df1 df2 =
     concat (map (\<lambda>l. map (\<lambda>r.
         \<lparr>id_col = id_col l, value_col = value_col l, group_col = group_col l,
          random_col = random_col l, complex_calc = complex_calc l,
          count_col = df2_count r, sum_col = df2_sum r, avg = df2_avg r, median = df2_median r\<rparr>)
       (filter (\<lambda>r. df2_group r = group_col l) df2)) df1)"

text \<open>Lines 134-138: the window \<^verbatim>\<open>Window.partitionBy("group").orderBy("random")\<close> and
  the three ranking columns. Rows of a partition with the same
  value of random are peers: they share rank and dense_rank, and row_number numbers them
  in the order the engine meets them, here the order of the list.\<close>

definition window :: "df3_row list \<Rightarrow> df4_row list" where
  "window df3 =
     map (\<lambda>(i, r).
        let part = filter (\<lambda>(j, p). group_col p = group_col r) (enumerate 0 df3);
            before = filter (\<lambda>(j, p). random_col p < random_col r) part;
            peers_before = filter (\<lambda>(j, p). random_col p = random_col r \<and> j < i) part
        in \<lparr>id_col = id_col r, value_col = value_col r, group_col = group_col r,
            random_col = random_col r, complex_calc = complex_calc r,
            count_col = count_col r, sum_col = sum_col r, avg = avg r, median = median r,
            row_number = length before + length peers_before + 1,
            rank_col = length before + 1,
            dense_rank = length (remdups (map (\<lambda>(j, p). random_col p) before)) + 1\<rparr>)
       (enumerate 0 df3)"

text \<open>\<^verbatim>\<open>df4\<close> as a function of the reloaded \<^verbatim>\<open>df\<close> (lines 112-138).\<close>

definition ranked_dataset :: "engine \<Rightarrow> raw_row list \<Rightarrow> df4_row list" where
  "ranked_dataset eng df =
     (let df1 = transform eng df;
          df2 = aggregate eng df1;
          df3 = join_on_group df1 df2
      in window df3)"

text \<open>The query on the view \<^verbatim>\<open>complex_data\<close> (lines 146-157): group by group, keep
  the groups with \<^verbatim>\<open>count(*) > 100\<close>, order by group.\<close>

definition complex_data_query :: "engine \<Rightarrow> df4_row list \<Rightarrow> sql_row list" where
  "complex_data_query eng v =
     map (\<lambda>g. let rows = rows_of_group g v in
            \<lparr>sql_group = g,
             avg_calc = sum_list (map complex_calc rows) / real (length rows),
             max_random = fold max (map random_col rows) (random_col (hd rows)),
             min_random = fold min (map random_col rows) (random_col (hd rows)),
             distinct_ids = approx_count_distinct eng (map id_col rows)\<rparr>)
       (sort (filter (\<lambda>g. length (rows_of_group g v) > 100) (group_keys v)))"

text \<open>\<^verbatim>\<open>spark.sql(...)\<close> resolves the view in the catalog of the session.\<close>

definition spark_sql :: "engine \<Rightarrow> sql_row list job" where
  "spark_sql eng =
     bind (invoke eng Sql) (\<lambda>_ w.
       (case views w ''complex_data'' of
          None \<Rightarrow> (Inl (EngineError Sql), w)
        | Some v \<Rightarrow> (Inr (complex_data_query eng v), w)))"

text \<open>\<^verbatim>\<open>stddev\<close> is the sample standard deviation.\<close>

definition stddev :: "real list \<Rightarrow> real option" where
  "stddev xs =
     (if length xs < 2 then None
      else let m = sum_list xs / real (length xs)
           in Some (sqrt (sum_list (map (\<lambda>x. (x - m) ^ 2) xs) / real (length xs - 1))))"

text \<open>Lines 165-172: \<^verbatim>\<open>final_result\<close>.\<close>

definition final_aggregation :: "df4_row list \<Rightarrow> final_row list" where
  "final_aggregation df4 =
     map (\<lambda>g. let rows = rows_of_group g (repartition 100 df4) in
            \<lparr>final_group = g,
             final_count = length rows,
             sum_calc = sum_list (map complex_calc rows),
             avg_random = sum_list (map random_col rows) / real (length rows),
             max_row_num = fold max (map row_number rows) (row_number (hd rows)),
             std_dev = stddev (map complex_calc rows)\<rparr>)
       (group_keys (repartition 100 df4))"

subsection \<open>The job\<close>

text \<open>Lines 67-100: the session is created, the generated dataset is written to
  \<^verbatim>\<open>{input_path}/raw_data\<close>, counted, read back under the declared schema and counted
  again. The result is \<^verbatim>\<open>(initial_count, read_count, df)\<close>.\<close>

definition write_and_reload :: "engine \<Rightarrow> string \<Rightarrow> (nat \<times> nat \<times> raw_row list) job" where
  "write_and_reload eng input_path =
     bind (create_spark_session eng) (\<lambda>_.
     let df = initial_dataset eng in
     bind (write_overwrite_parquet eng (input_path @ ''/raw_data'') (RawData df)) (\<lambda>_.
     bind (invoke eng (SetJobDescription ''Writing initial dataset'')) (\<lambda>_.
     bind (count eng df) (\<lambda>initial_count.
     bind (read_parquet eng schema (input_path @ ''/raw_data'')) (\<lambda>df.
     bind (count eng df) (\<lambda>read_count.
     return (initial_count, read_count, df)))))))"

text \<open>Lines 105-186: everything after the check of \<^verbatim>\<open>read_count\<close>.\<close>

definition process :: "engine \<Rightarrow> string \<Rightarrow> raw_row list \<Rightarrow> unit job" where
  "process eng output_path df =
     bind (invoke eng Persist) (\<lambda>_.
     bind (count eng df) (\<lambda>_.
     let df4 = ranked_dataset eng df in
     bind (count eng df4) (\<lambda>_.
     bind (create_or_replace_temp_view eng ''complex_data'' df4) (\<lambda>_.
     bind (spark_sql eng) (\<lambda>sql_result.
     bind (write_overwrite_parquet eng (output_path @ ''/sql_results'') (SqlResults sql_result)) (\<lambda>_.
     let final_result = final_aggregation df4 in
     bind (write_overwrite_parquet eng (output_path @ ''/final_results'') (FinalResults final_result)) (\<lambda>_.
     bind (invoke eng (Show 5)) (\<lambda>_.
     bind (count eng final_result) (\<lambda>final_count.
     stop eng)))))))))"

definition run_complex_spark_job :: "engine \<Rightarrow> string \<Rightarrow> string \<Rightarrow> unit job" where
  "run_complex_spark_job eng input_path output_path =
     (if input_path = [] \<or> output_path = []
      then raise (ValueError ''INPUT_PATH and OUTPUT_PATH must be set in the environment variables.'')
      else
        bind (write_and_reload eng input_path) (\<lambda>(initial_count, read_count, df).
          if read_count = 0
          then raise (ValueError ''No data was read from the input path. Please check the S3 location.'')
          else process eng output_path df))"

subsection \<open>Observations and sample engines\<close>

fun is_write :: "call \<Rightarrow> bool" where
  "is_write (WriteParquet mode path) = True"
| "is_write _ = False"

text \<open>The rows of the dataset at \<^verbatim>\<open>{output_path}/final_results\<close>.\<close>

definition final_results_rows :: "world \<Rightarrow> string \<Rightarrow> final_row list" where
  "final_results_rows w output_path =
     (case store w (output_path @ ''/final_results'') of
        Some (FinalResults rows) \<Rightarrow> rows
      | _ \<Rightarrow> [])"

text \<open>Nobody else touches the object store.\<close>

definition faithful_store :: "engine \<Rightarrow> bool" where
  "faithful_store eng \<longleftrightarrow> (\<forall>st. outside eng st = st)"

text \<open>An engine that never raises, on a store nobody else touches.\<close>

definition quiet_engine :: engine where
  "quiet_engine =
     \<lparr>rand_value = (\<lambda>i. 0), rand_random = (\<lambda>i. 0),
      percentile_approx = (\<lambda>xs p. 0),
      approx_count_distinct = (\<lambda>ks. int (length (remdups ks))),
      fails = (\<lambda>n. False), outside = (\<lambda>st. st)\<rparr>"

text \<open>The same engine drawing other random numbers.\<close>

definition other_engine :: engine where
  "other_engine = quiet_engine\<lparr>rand_value := (\<lambda>i. 1 / 2)\<rparr>"

text \<open>The rows written to \<^verbatim>\<open>s3://bucket/in/raw_data\<close> are gone when the job reads
  the location.\<close>

definition lossy_engine :: engine where
  "lossy_engine = quiet_engine\<lparr>outside := (\<lambda>st. st(''s3://bucket/in/raw_data'' \<mapsto> RawData []))\<rparr>"

text \<open>Somebody replaces the rows at \<^verbatim>\<open>s3://bucket/in/raw_data\<close> by a single row before
  the job reads the location.\<close>

definition single_row_engine :: engine where
  "single_row_engine =
     quiet_engine\<lparr>outside := (\<lambda>st. st(''s3://bucket/in/raw_data'' \<mapsto>
       RawData [\<lparr>id_col = 7, value_col = 0, group_col = 7\<rparr>]))\<rparr>"

text \<open>Somebody replaces the rows at \<^verbatim>\<open>s3://bucket/in/raw_data\<close> by 1999 rows with the
  ids -999 to 999 before the job reads the location.\<close>

definition signed_ids :: "int list" where
  "signed_ids = [- 999..999]"

definition signed_ids_engine :: engine where
  "signed_ids_engine =
     quiet_engine\<lparr>outside := (\<lambda>st. st(''s3://bucket/in/raw_data'' \<mapsto>
       RawData (map (\<lambda>k. \<lparr>id_col = k, value_col = 0, group_col = k smod 1000\<rparr>) signed_ids)))\<rparr>"

text \<open>The first write (engine call number 1) raises, as on a location that is not
  writable.\<close>

definition write_failing_engine :: engine where
  "write_failing_engine = quiet_engine\<lparr>fails := (\<lambda>n. n = 1)\<rparr>"

section \<open>Properties\<close>

subsection \<open>Sequencing and the two stages\<close>

lemma bind_eq_Inr:
  "bind m k w = (Inr y, w'') \<longleftrightarrow> (\<exists>x w'. m w = (Inr x, w') \<and> k x w' = (Inr y, w''))"
  by (auto simp: bind_def split: prod.splits sum.splits)

lemma invoke_eq_Inr:
  "invoke eng c w = (Inr u, w') \<longleftrightarrow>
     (\<not> fails eng (length (calls w)) \<and> w' = w\<lparr>calls := calls w @ [c]\<rparr>)"
  by (auto simp: invoke_def)

lemma modify_eq: "modify f w = (r, w') \<longleftrightarrow> (r = Inr () \<and> w' = f w)"
  by (auto simp: modify_def)

lemma return_eq: "return x w = (r, w') \<longleftrightarrow> (r = Inr x \<and> w' = w)"
  by (auto simp: return_def)

lemma write_and_reload_Inr:
  assumes "write_and_reload eng input_path w = (Inr (ic, rc, df), w')"
  shows "ic = length (initial_dataset eng)" "rc = length df"
    "calls w' = calls w @ [GetOrCreate, WriteParquet ''overwrite'' (input_path @ ''/raw_data''),
        SetJobDescription ''Writing initial dataset'', Count,
        ReadParquet schema (input_path @ ''/raw_data''), Count]"
    "store w' = outside eng ((store w)(input_path @ ''/raw_data'' \<mapsto> RawData (initial_dataset eng)))"
    "store w' (input_path @ ''/raw_data'') = Some (RawData df)"
    "session_active w'" "views w' = views w"
  using assms
  unfolding write_and_reload_def create_spark_session_def write_overwrite_parquet_def
    read_parquet_def count_def Let_def
  by (auto simp: bind_eq_Inr invoke_eq_Inr modify_eq return_eq split: option.splits dataset.splits)

lemma process_Inr:
  assumes "process eng output_path df w = (Inr u, w')"
  shows
    "calls w' = calls w @ [Persist, Count, Count, CreateOrReplaceTempView ''complex_data'', Sql,
        WriteParquet ''overwrite'' (output_path @ ''/sql_results''),
        WriteParquet ''overwrite'' (output_path @ ''/final_results''), Show 5, Count, Stop]"
    "store w' = (store w)
        (output_path @ ''/sql_results'' \<mapsto> SqlResults (complex_data_query eng (ranked_dataset eng df)),
         output_path @ ''/final_results'' \<mapsto> FinalResults (final_aggregation (ranked_dataset eng df)))"
    "\<not> session_active w'"
  using assms
  unfolding process_def create_or_replace_temp_view_def write_overwrite_parquet_def
    spark_sql_def count_def stop_def Let_def
  by (auto simp: bind_eq_Inr invoke_eq_Inr modify_eq return_eq split: option.splits)

text \<open>A run that returns went through both stages, on a reloaded dataset with rows.\<close>

lemma run_Inr:
  assumes "run_complex_spark_job eng input_path output_path w = (Inr u, w')"
  shows "\<exists>df w1. input_path \<noteq> [] \<and> output_path \<noteq> [] \<and> df \<noteq> [] \<and>
     write_and_reload eng input_path w = (Inr (length (initial_dataset eng), length df, df), w1) \<and>
     process eng output_path df w1 = (Inr u, w')"
  using assms unfolding run_complex_spark_job_def
  by (auto simp: bind_eq_Inr raise_def dest: write_and_reload_Inr(1,2) split: if_splits)

text \<open>Conversely: when no engine call raises and the location still holds a raw dataset,
  the stages return.\<close>

lemma write_and_reload_ok:
  assumes nf: "\<And>n. \<not> fails eng n"
    and rd: "outside eng ((store w)(input_path @ ''/raw_data'' \<mapsto> RawData (initial_dataset eng)))
               (input_path @ ''/raw_data'') = Some (RawData df)"
  shows "\<exists>w'. write_and_reload eng input_path w
           = (Inr (length (initial_dataset eng), length df, df), w')"
  unfolding write_and_reload_def create_spark_session_def write_overwrite_parquet_def
    read_parquet_def count_def Let_def
  by (simp add: bind_def invoke_def modify_def return_def nf rd)

lemma process_ok:
  assumes nf: "\<And>n. \<not> fails eng n"
  shows "\<exists>w'. process eng output_path df w = (Inr (), w')"
  unfolding process_def create_or_replace_temp_view_def write_overwrite_parquet_def
    spark_sql_def count_def stop_def Let_def
  by (simp add: bind_def invoke_def modify_def return_def nf)

lemma run_ok:
  assumes nf: "\<And>n. \<not> fails eng n"
    and rd: "outside eng ((store w)(input_path @ ''/raw_data'' \<mapsto> RawData (initial_dataset eng)))
               (input_path @ ''/raw_data'') = Some (RawData df)"
    and ne: "input_path \<noteq> []" "output_path \<noteq> []" "df \<noteq> []"
  shows "\<exists>w'. run_complex_spark_job eng input_path output_path w = (Inr (), w')"
proof -
  from write_and_reload_ok [OF nf rd] obtain w1 where
    1: "write_and_reload eng input_path w = (Inr (length (initial_dataset eng), length df, df), w1)"
    by blast
  from process_ok [OF nf] obtain w2 where 2: "process eng output_path df w1 = (Inr (), w2)"
    by blast
  show ?thesis
    unfolding run_complex_spark_job_def using ne by (simp add: bind_def 1 2)
qed

lemma length_initial_dataset: "length (initial_dataset eng) = 10000000"
  by (simp add: initial_dataset_def spark_range_def)

lemma initial_dataset_not_empty: "initial_dataset eng \<noteq> []"
  using length_initial_dataset [of eng] by auto

lemma quiet_engine_simps:
  "fails quiet_engine n = False" "outside quiet_engine st = st"
  by (simp_all add: quiet_engine_def)

lemma quiet_run_returns:
  "\<exists>w'. run_complex_spark_job quiet_engine ''s3://bucket/in'' ''s3://bucket/out''
          (initial_world Map.empty) = (Inr (), w')"
  by (rule run_ok [where df = "initial_dataset quiet_engine"])
     (simp_all add: quiet_engine_simps initial_dataset_not_empty)

lemma raw_neq_sql: "i @ ''/raw_data'' \<noteq> p @ ''/sql_results''"
proof
  assume "i @ ''/raw_data'' = p @ ''/sql_results''"
  then have "last (i @ ''/raw_data'') = last (p @ ''/sql_results'')" by simp
  then show False by simp
qed

lemma raw_neq_final: "i @ ''/raw_data'' \<noteq> p @ ''/final_results''"
proof
  assume "i @ ''/raw_data'' = p @ ''/final_results''"
  then have "last (i @ ''/raw_data'') = last (p @ ''/final_results'')" by simp
  then show False by simp
qed

subsection \<open>Writes of a run that returns\<close>

text \<open>
  C1. For non-empty \<open>input_path\<close> and \<open>output_path\<close>, a run that returns has made
  exactly three writes, in mode "overwrite", to \<^verbatim>\<open>{input_path}/raw_data\<close>,
  \<^verbatim>\<open>{output_path}/sql_results\<close> and \<^verbatim>\<open>{output_path}/final_results\<close>, three different
  locations, and no other write; the store differs from what the rest of the world left
  only by the two result datasets.
\<close>

theorem three_overwrite_writes:
  assumes "input_path \<noteq> []" and "output_path \<noteq> []"
    and "run_complex_spark_job eng input_path output_path (initial_world st) = (Inr (), w')"
  shows "filter is_write (calls w') =
           [WriteParquet ''overwrite'' (input_path @ ''/raw_data''),
            WriteParquet ''overwrite'' (output_path @ ''/sql_results''),
            WriteParquet ''overwrite'' (output_path @ ''/final_results'')]
         \<and> distinct [input_path @ ''/raw_data'', output_path @ ''/sql_results'',
                     output_path @ ''/final_results'']
         \<and> (\<exists>df. store w' =
               (outside eng (st(input_path @ ''/raw_data'' \<mapsto> RawData (initial_dataset eng))))
                 (output_path @ ''/sql_results'' \<mapsto>
                    SqlResults (complex_data_query eng (ranked_dataset eng df)),
                  output_path @ ''/final_results'' \<mapsto>
                    FinalResults (final_aggregation (ranked_dataset eng df))))"
proof -
  from run_Inr [OF assms(3)] obtain df w1 where
    1: "write_and_reload eng input_path (initial_world st)
          = (Inr (length (initial_dataset eng), length df, df), w1)"
    and 2: "process eng output_path df w1 = (Inr (), w')"
    by blast
  have c: "calls w' = [GetOrCreate, WriteParquet ''overwrite'' (input_path @ ''/raw_data''),
        SetJobDescription ''Writing initial dataset'', Count,
        ReadParquet schema (input_path @ ''/raw_data''), Count,
        Persist, Count, Count, CreateOrReplaceTempView ''complex_data'', Sql,
        WriteParquet ''overwrite'' (output_path @ ''/sql_results''),
        WriteParquet ''overwrite'' (output_path @ ''/final_results''), Show 5, Count, Stop]"
    by (simp add: process_Inr(1) [OF 2] write_and_reload_Inr(3) [OF 1] initial_world_def)
  have s: "store w' =
      (outside eng (st(input_path @ ''/raw_data'' \<mapsto> RawData (initial_dataset eng))))
        (output_path @ ''/sql_results'' \<mapsto> SqlResults (complex_data_query eng (ranked_dataset eng df)),
         output_path @ ''/final_results'' \<mapsto> FinalResults (final_aggregation (ranked_dataset eng df)))"
    by (simp add: process_Inr(2) [OF 2] write_and_reload_Inr(4) [OF 1] initial_world_def)
  have d: "distinct [input_path @ ''/raw_data'', output_path @ ''/sql_results'',
                     output_path @ ''/final_results'']"
    by (simp add: raw_neq_sql raw_neq_final)
  from s have "\<exists>df. store w' =
               (outside eng (st(input_path @ ''/raw_data'' \<mapsto> RawData (initial_dataset eng))))
                 (output_path @ ''/sql_results'' \<mapsto>
                    SqlResults (complex_data_query eng (ranked_dataset eng df)),
                  output_path @ ''/final_results'' \<mapsto>
                    FinalResults (final_aggregation (ranked_dataset eng df)))" by blast
  with d show ?thesis by (simp add: c)
qed

text \<open>The quiet engine on \<^verbatim>\<open>s3://bucket/in\<close> and \<^verbatim>\<open>s3://bucket/out\<close>.\<close>

theorem three_overwrite_writes_witness:
  "filter is_write (calls (snd (run_complex_spark_job quiet_engine ''s3://bucket/in''
      ''s3://bucket/out'' (initial_world Map.empty)))) =
     [WriteParquet ''overwrite'' ''s3://bucket/in/raw_data'',
      WriteParquet ''overwrite'' ''s3://bucket/out/sql_results'',
      WriteParquet ''overwrite'' ''s3://bucket/out/final_results'']"
proof -
  from quiet_run_returns obtain w' where
    r: "run_complex_spark_job quiet_engine ''s3://bucket/in'' ''s3://bucket/out''
          (initial_world Map.empty) = (Inr (), w')" by blast
  have "''s3://bucket/in'' \<noteq> []" and "''s3://bucket/out'' \<noteq> []" by simp_all
  from three_overwrite_writes [OF this r] show ?thesis by (simp add: r)
qed

subsection \<open>Empty path arguments\<close>

text \<open>
  C3. When \<open>input_path\<close> or \<open>output_path\<close> is empty, the run raises the configuration
  error (the \<^verbatim>\<open>ValueError\<close> of line 65) and leaves the world as it found it: no engine
  call is made and no location of the object store is written.
\<close>

theorem empty_path_configuration_error:
  assumes "input_path = [] \<or> output_path = []"
  shows "run_complex_spark_job eng input_path output_path w
           = (Inl (ValueError ''INPUT_PATH and OUTPUT_PATH must be set in the environment variables.''), w)"
  using assms by (auto simp: run_complex_spark_job_def raise_def)

theorem empty_path_configuration_error_witness:
  "run_complex_spark_job quiet_engine [] ''s3://bucket/out'' (initial_world Map.empty)
     = (Inl (ValueError ''INPUT_PATH and OUTPUT_PATH must be set in the environment variables.''),
        initial_world Map.empty)
   \<and> calls (initial_world Map.empty) = [] \<and> store (initial_world Map.empty) = Map.empty"
  using empty_path_configuration_error [of "[]" "''s3://bucket/out''" quiet_engine "initial_world Map.empty"]
  by (simp add: initial_world_def)

subsection \<open>The declared read schema\<close>

text \<open>
  C6, as stated: the schema of the re-read has three fields, each declared not null.
  The third argument of \<^verbatim>\<open>StructField\<close> is \<^verbatim>\<open>nullable\<close>, and the source passes
  \<^verbatim>\<open>True\<close> three times.
\<close>

theorem schema_not_null_counterexample:
  "nullable (schema ! 0) \<and> nullable (schema ! 1) \<and> nullable (schema ! 2)"
  by (simp add: schema_def)

text \<open>
  C6, amended. The schema of the re-read has exactly three fields: id of type long,
  value of type double, group of type long, each declared nullable.
\<close>

theorem schema_fields:
  "map field_name schema = [''id'', ''value'', ''group''] \<and>
   map field_type schema = [LongType, DoubleType, LongType] \<and>
   map nullable schema = [True, True, True]"
  by (simp add: schema_def)

subsection \<open>A reload without rows\<close>

lemma lossy_engine_simps:
  "fails lossy_engine n = False"
  "outside lossy_engine st = st(''s3://bucket/in/raw_data'' \<mapsto> RawData [])"
  by (simp_all add: lossy_engine_def quiet_engine_def)

lemma lossy_write_and_reload:
  "\<exists>w1. write_and_reload lossy_engine ''s3://bucket/in'' (initial_world Map.empty)
          = (Inr (length (initial_dataset lossy_engine), 0, []), w1)"
  using write_and_reload_ok [where eng = lossy_engine and df = "[]" and input_path = "''s3://bucket/in''"
      and w = "initial_world Map.empty"]
  by (simp add: lossy_engine_simps)

text \<open>
  C4. When the re-read of \<^verbatim>\<open>{input_path}/raw_data\<close> yields a row count of zero, the run
  raises the data-integrity error (the \<^verbatim>\<open>ValueError\<close> of line 103) in the world that
  the count left: the call log ends with that count, so nothing is persisted, no later
  DataFrame is evaluated, no view is registered, no query is run and no result is written.
\<close>

theorem zero_rows_data_integrity_error:
  assumes "input_path \<noteq> []" and "output_path \<noteq> []"
    and "write_and_reload eng input_path w = (Inr (initial_count, 0, df), w1)"
  shows "run_complex_spark_job eng input_path output_path w
           = (Inl (ValueError ''No data was read from the input path. Please check the S3 location.''), w1)
         \<and> calls w1 = calls w @
             [GetOrCreate, WriteParquet ''overwrite'' (input_path @ ''/raw_data''),
              SetJobDescription ''Writing initial dataset'', Count,
              ReadParquet schema (input_path @ ''/raw_data''), Count]
         \<and> views w1 = views w"
  using assms write_and_reload_Inr(3,7) [OF assms(3)]
  by (simp add: run_complex_spark_job_def bind_def raise_def)

text \<open>The rows written to \<^verbatim>\<open>s3://bucket/in/raw_data\<close> are lost before the re-read.\<close>

theorem zero_rows_data_integrity_error_witness:
  "fst (run_complex_spark_job lossy_engine ''s3://bucket/in'' ''s3://bucket/out''
          (initial_world Map.empty))
     = Inl (ValueError ''No data was read from the input path. Please check the S3 location.'')
   \<and> calls (snd (run_complex_spark_job lossy_engine ''s3://bucket/in'' ''s3://bucket/out''
          (initial_world Map.empty)))
     = [GetOrCreate, WriteParquet ''overwrite'' ''s3://bucket/in/raw_data'',
        SetJobDescription ''Writing initial dataset'', Count,
        ReadParquet schema ''s3://bucket/in/raw_data'', Count]"
proof -
  from lossy_write_and_reload obtain w1 where
    r: "write_and_reload lossy_engine ''s3://bucket/in'' (initial_world Map.empty)
          = (Inr (length (initial_dataset lossy_engine), 0, []), w1)" by blast
  have "''s3://bucket/in'' \<noteq> []" and "''s3://bucket/out'' \<noteq> []" by simp_all
  from zero_rows_data_integrity_error [OF this r] show ?thesis
    by (simp add: initial_world_def)
qed

subsection \<open>Release of the session\<close>

text \<open>
  C2, as stated: on every exit path, the error paths included, the session is released
  once it is acquired. The source calls \<^verbatim>\<open>spark.stop()\<close> on line 186 only, as the last
  statement of the normal path, and has no \<^verbatim>\<open>try ... finally\<close>. Two runs that leave by
  an exception after line 67: the reload without rows (line 103), and a first write that
  raises (line 80). In both the session is still active when the function is left, and
  \<open>Stop\<close> was never called.
\<close>

theorem session_not_released_on_error_counterexample:
  "fst (run_complex_spark_job lossy_engine ''s3://bucket/in'' ''s3://bucket/out''
          (initial_world Map.empty))
     = Inl (ValueError ''No data was read from the input path. Please check the S3 location.'')
   \<and> session_active (snd (run_complex_spark_job lossy_engine ''s3://bucket/in'' ''s3://bucket/out''
          (initial_world Map.empty)))
   \<and> Stop \<notin> set (calls (snd (run_complex_spark_job lossy_engine ''s3://bucket/in''
          ''s3://bucket/out'' (initial_world Map.empty))))
   \<and> fst (run_complex_spark_job write_failing_engine ''s3://bucket/in'' ''s3://bucket/out''
          (initial_world Map.empty))
     = Inl (EngineError (WriteParquet ''overwrite'' ''s3://bucket/in/raw_data''))
   \<and> session_active (snd (run_complex_spark_job write_failing_engine ''s3://bucket/in''
          ''s3://bucket/out'' (initial_world Map.empty)))
   \<and> Stop \<notin> set (calls (snd (run_complex_spark_job write_failing_engine ''s3://bucket/in''
          ''s3://bucket/out'' (initial_world Map.empty))))"
proof -
  have l: "run_complex_spark_job lossy_engine ''s3://bucket/in'' ''s3://bucket/out''
          (initial_world Map.empty)
     = (Inl (ValueError ''No data was read from the input path. Please check the S3 location.''),
        \<lparr>store = [''s3://bucket/in/raw_data'' \<mapsto> RawData []], views = Map.empty,
         session_active = True,
         calls = [GetOrCreate, WriteParquet ''overwrite'' ''s3://bucket/in/raw_data'',
           SetJobDescription ''Writing initial dataset'', Count,
           ReadParquet schema ''s3://bucket/in/raw_data'', Count]\<rparr>)"
    unfolding run_complex_spark_job_def write_and_reload_def create_spark_session_def
      write_overwrite_parquet_def read_parquet_def count_def Let_def initial_world_def
    by (simp add: bind_def invoke_def modify_def return_def raise_def lossy_engine_simps)
  have f: "run_complex_spark_job write_failing_engine ''s3://bucket/in'' ''s3://bucket/out''
          (initial_world Map.empty)
     = (Inl (EngineError (WriteParquet ''overwrite'' ''s3://bucket/in/raw_data'')),
        \<lparr>store = Map.empty, views = Map.empty, session_active = True,
         calls = [GetOrCreate, WriteParquet ''overwrite'' ''s3://bucket/in/raw_data'']\<rparr>)"
    unfolding run_complex_spark_job_def write_and_reload_def create_spark_session_def
      write_overwrite_parquet_def read_parquet_def count_def Let_def initial_world_def
    by (simp add: bind_def invoke_def modify_def return_def raise_def
        write_failing_engine_def quiet_engine_def)
  show ?thesis by (simp add: l f)
qed

text \<open>
  C2, amended. A run that returns has released the session it acquired:
  \<^verbatim>\<open>spark.stop()\<close> is its last engine call and the session is not active afterwards.
  A run with an empty path argument exits before any session is acquired.
\<close>

theorem session_released_on_return:
  "(run_complex_spark_job eng input_path output_path (initial_world st) = (Inr (), w') \<longrightarrow>
      \<not> session_active w' \<and> GetOrCreate \<in> set (calls w') \<and> last (calls w') = Stop) \<and>
   (input_path = [] \<or> output_path = [] \<longrightarrow>
      \<not> session_active (snd (run_complex_spark_job eng input_path output_path (initial_world st))) \<and>
      GetOrCreate \<notin> set (calls (snd (run_complex_spark_job eng input_path output_path
        (initial_world st)))))"
proof (intro conjI impI)
  assume r: "run_complex_spark_job eng input_path output_path (initial_world st) = (Inr (), w')"
  from run_Inr [OF r] obtain df w1 where
    1: "write_and_reload eng input_path (initial_world st)
          = (Inr (length (initial_dataset eng), length df, df), w1)"
    and 2: "process eng output_path df w1 = (Inr (), w')"
    by blast
  show "\<not> session_active w'" by (rule process_Inr(3) [OF 2])
  show "GetOrCreate \<in> set (calls w')"
    by (simp add: process_Inr(1) [OF 2] write_and_reload_Inr(3) [OF 1])
  show "last (calls w') = Stop"
    by (simp add: process_Inr(1) [OF 2])
next
  assume e: "input_path = [] \<or> output_path = []"
  then have "run_complex_spark_job eng input_path output_path (initial_world st)
      = (Inl (ValueError ''INPUT_PATH and OUTPUT_PATH must be set in the environment variables.''),
         initial_world st)"
    by (auto simp: run_complex_spark_job_def raise_def)
  then show "\<not> session_active (snd (run_complex_spark_job eng input_path output_path (initial_world st)))"
    and "GetOrCreate \<notin> set (calls (snd (run_complex_spark_job eng input_path output_path
        (initial_world st))))"
    by (simp_all add: initial_world_def)
qed

theorem session_released_on_return_witness:
  "\<not> session_active (snd (run_complex_spark_job quiet_engine ''s3://bucket/in'' ''s3://bucket/out''
        (initial_world Map.empty))) \<and>
   last (calls (snd (run_complex_spark_job quiet_engine ''s3://bucket/in'' ''s3://bucket/out''
        (initial_world Map.empty)))) = Stop \<and>
   \<not> session_active (snd (run_complex_spark_job quiet_engine [] ''s3://bucket/out''
        (initial_world Map.empty))) \<and>
   GetOrCreate \<notin> set (calls (snd (run_complex_spark_job quiet_engine [] ''s3://bucket/out''
        (initial_world Map.empty))))"
proof -
  from quiet_run_returns obtain w' where
    r: "run_complex_spark_job quiet_engine ''s3://bucket/in'' ''s3://bucket/out''
          (initial_world Map.empty) = (Inr (), w')" by blast
  from session_released_on_return [of quiet_engine "''s3://bucket/in''" "''s3://bucket/out''" Map.empty w']
    r
  have a: "\<not> session_active w' \<and> last (calls w') = Stop" by blast
  from session_released_on_return [of quiet_engine "[]" "''s3://bucket/out''" Map.empty]
  have b: "\<not> session_active (snd (run_complex_spark_job quiet_engine [] ''s3://bucket/out''
        (initial_world Map.empty))) \<and>
   GetOrCreate \<notin> set (calls (snd (run_complex_spark_job quiet_engine [] ''s3://bucket/out''
        (initial_world Map.empty))))" by blast
  from a b show ?thesis by (simp add: r)
qed

subsection \<open>The group column through the pipeline\<close>

text \<open>The group of a row of the ranked dataset is the remainder of its id: the
  transformation recomputes it, every row of \<^verbatim>\<open>df1\<close> meets exactly one row of \<^verbatim>\<open>df2\<close>
  in the join, and the window adds columns only.\<close>

lemma map_enumerate_snd:
  "map (\<lambda>p. f (snd p)) (enumerate n xs) = map f xs"
  by (induction xs arbitrary: n) auto

lemma map_enumerate_fst:
  "map (\<lambda>p. f (fst p)) (enumerate n xs) = map f [n..<n + length xs]"
proof -
  have "map f (map fst (enumerate n xs)) = map f [n..<n + length xs]"
    by (simp only: map_fst_enumerate)
  then show ?thesis by (simp only: map_map comp_def)
qed

lemma group_col_transform:
  "map group_col (transform eng df) = map (\<lambda>r. id_col r smod 1000) df"
  unfolding transform_def repartition_def
  by (simp add: case_prod_unfold comp_def map_enumerate_snd [of "\<lambda>r. id_col r smod 1000"])

lemma filter_eq_distinct:
  "distinct xs \<Longrightarrow> x \<in> set xs \<Longrightarrow> filter (\<lambda>k. k = x) xs = [x]"
  by (induction xs) (auto simp: filter_empty_conv)

lemma df2_group_aggregate: "map df2_group (aggregate eng df1) = group_keys df1"
  by (simp add: aggregate_def Let_def comp_def)

lemma matching_aggregate_row:
  assumes "l \<in> set df1"
  shows "length (filter (\<lambda>r. df2_group r = group_col l) (aggregate eng df1)) = 1"
proof -
  have "length (filter (\<lambda>r. df2_group r = group_col l) (aggregate eng df1))
        = length (filter (\<lambda>k. k = group_col l) (map df2_group (aggregate eng df1)))"
    by (simp add: filter_map comp_def)
  also have "\<dots> = length (filter (\<lambda>k. k = group_col l) (group_keys df1))"
    by (simp only: df2_group_aggregate)
  also have "\<dots> = 1"
    using assms by (simp add: filter_eq_distinct group_keys_def)
  finally show ?thesis .
qed

lemma group_col_join_aux:
  assumes "\<And>l. l \<in> set xs \<Longrightarrow> length (filter (\<lambda>r. df2_group r = group_col l) df2) = 1"
  shows "map group_col (join_on_group xs df2) = map group_col xs"
  using assms
proof (induction xs)
  case Nil
  then show ?case by (simp add: join_on_group_def)
next
  case (Cons l xs)
  from Cons.prems [of l] obtain r where r: "filter (\<lambda>r. df2_group r = group_col l) df2 = [r]"
    by (auto simp: length_Suc_conv)
  have "map group_col (join_on_group xs df2) = map group_col xs"
    using Cons by simp
  then show ?case
    using r by (simp add: join_on_group_def)
qed

lemma group_col_join:
  "map group_col (join_on_group df1 (aggregate eng df1)) = map group_col df1"
  by (rule group_col_join_aux) (rule matching_aggregate_row)

lemma group_col_window: "map group_col (window df3) = map group_col df3"
  unfolding window_def
  by (simp add: case_prod_unfold comp_def Let_def map_enumerate_snd)

lemma group_col_ranked:
  "map group_col (ranked_dataset eng df) = map (\<lambda>r. id_col r smod 1000) df"
  by (simp add: ranked_dataset_def Let_def group_col_window group_col_join group_col_transform)

lemma length_rows_of_group:
  "length (rows_of_group g df) = count_list (map group_col df) g"
  by (induction df) (auto simp: rows_of_group_def)

lemma sql_group_query:
  "map sql_group (complex_data_query eng v)
     = sort (filter (\<lambda>g. 100 < length (rows_of_group g v)) (group_keys v))"
  by (simp add: complex_data_query_def Let_def comp_def)

lemma final_group_aggregation: "map final_group (final_aggregation v) = group_keys v"
  by (simp add: final_aggregation_def Let_def comp_def repartition_def)


lemma set_final_groups:
  "set (map final_group (final_aggregation v)) = set (map group_col v)"
  by (simp add: final_group_aggregation group_keys_def)

lemma run_outputs:
  assumes "run_complex_spark_job eng input_path output_path (initial_world st) = (Inr (), w')"
  shows "\<exists>df. df \<noteq> [] \<and>
     outside eng (st(input_path @ ''/raw_data'' \<mapsto> RawData (initial_dataset eng)))
       (input_path @ ''/raw_data'') = Some (RawData df) \<and>
     store w' (input_path @ ''/raw_data'') = Some (RawData df) \<and>
     store w' (output_path @ ''/sql_results'')
       = Some (SqlResults (complex_data_query eng (ranked_dataset eng df))) \<and>
     store w' (output_path @ ''/final_results'')
       = Some (FinalResults (final_aggregation (ranked_dataset eng df)))"
proof -
  from run_Inr [OF assms] obtain df w1 where
    ne: "df \<noteq> []"
    and 1: "write_and_reload eng input_path (initial_world st)
          = (Inr (length (initial_dataset eng), length df, df), w1)"
    and 2: "process eng output_path df w1 = (Inr (), w')"
    by blast
  note a = write_and_reload_Inr(4,5) [OF 1] and b = process_Inr(2) [OF 2]
  have s0: "store (initial_world st) = st" by (simp add: initial_world_def)
  have "outside eng (st(input_path @ ''/raw_data'' \<mapsto> RawData (initial_dataset eng)))
       (input_path @ ''/raw_data'') = Some (RawData df)"
    using a by (simp add: s0)
  moreover have "store w' (input_path @ ''/raw_data'') = Some (RawData df)"
    using a(2) by (simp add: b raw_neq_sql raw_neq_final)
  moreover have "store w' (output_path @ ''/sql_results'')
       = Some (SqlResults (complex_data_query eng (ranked_dataset eng df)))"
    by (simp add: b)
  moreover have "store w' (output_path @ ''/final_results'')
       = Some (FinalResults (final_aggregation (ranked_dataset eng df)))"
    by (simp add: b)
  ultimately show ?thesis using ne by blast
qed

lemma single_row_engine_simps:
  "fails single_row_engine n = False"
  "outside single_row_engine st
     = st(''s3://bucket/in/raw_data'' \<mapsto> RawData [\<lparr>id_col = 7, value_col = 0, group_col = 7\<rparr>])"
  by (simp_all add: single_row_engine_def quiet_engine_def)

lemma single_row_run_returns:
  "\<exists>w'. run_complex_spark_job single_row_engine ''s3://bucket/in'' ''s3://bucket/out''
          (initial_world Map.empty) = (Inr (), w')"
  by (rule run_ok [where df = "[\<lparr>id_col = 7, value_col = 0, group_col = 7\<rparr>]"])
     (simp_all add: single_row_engine_simps)



subsection \<open>Round trip through the object store\<close>

lemma quiet_write_and_reload:
  "\<exists>w1. write_and_reload quiet_engine ''s3://bucket/in'' (initial_world Map.empty)
          = (Inr (length (initial_dataset quiet_engine), length (initial_dataset quiet_engine),
                  initial_dataset quiet_engine), w1)"
  by (rule write_and_reload_ok) (simp_all add: quiet_engine_simps)

lemma single_row_write_and_reload:
  "\<exists>w1. write_and_reload single_row_engine ''s3://bucket/in'' (initial_world Map.empty)
          = (Inr (length (initial_dataset single_row_engine), 1,
                  [\<lparr>id_col = 7, value_col = 0, group_col = 7\<rparr>]), w1)"
  using write_and_reload_ok [where eng = single_row_engine
      and df = "[\<lparr>id_col = 7, value_col = 0, group_col = 7\<rparr>]"
      and input_path = "''s3://bucket/in''" and w = "initial_world Map.empty"]
  by (simp add: single_row_engine_simps)

text \<open>
  C5, as stated: in every run that returns, \<open>read_count = initial_count\<close>. The source
  compares \<open>read_count\<close> with 0 only (line 102). When the location holds a single row
  at the re-read, the run returns with \<open>initial_count = 10000000\<close> and
  \<open>read_count = 1\<close>.
\<close>

theorem reload_count_differs_counterexample:
  "fst (run_complex_spark_job single_row_engine ''s3://bucket/in'' ''s3://bucket/out''
          (initial_world Map.empty)) = Inr ()
   \<and> fst (write_and_reload single_row_engine ''s3://bucket/in'' (initial_world Map.empty))
     = Inr (10000000, 1, [\<lparr>id_col = 7, value_col = 0, group_col = 7\<rparr>])"
proof -
  from single_row_run_returns obtain w' where
    "run_complex_spark_job single_row_engine ''s3://bucket/in'' ''s3://bucket/out''
          (initial_world Map.empty) = (Inr (), w')" by blast
  moreover from single_row_write_and_reload obtain w1 where
    "write_and_reload single_row_engine ''s3://bucket/in'' (initial_world Map.empty)
          = (Inr (length (initial_dataset single_row_engine), 1,
                  [\<lparr>id_col = 7, value_col = 0, group_col = 7\<rparr>]), w1)" by blast
  ultimately show ?thesis by (simp add: length_initial_dataset)
qed

text \<open>
  C5, amended. In every run that reaches the count of the reloaded dataset,
  \<open>initial_count\<close> is the row count of the generated dataset that the run wrote to
  \<^verbatim>\<open>{input_path}/raw_data\<close>, which is 10,000,000, and \<open>read_count\<close> is the row count of
  the dataset that the object store holds at that same location when the job reads it,
  after the write. So \<open>read_count = initial_count\<close> exactly when the store holds
  10,000,000 rows there, in particular when it still holds the dataset written; and a
  run that returns has \<open>read_count > 0\<close>.
\<close>

theorem reload_count_is_stored_count:
  assumes "write_and_reload eng input_path w = (Inr (initial_count, read_count, df), w')"
  shows "initial_count = length (initial_dataset eng) \<and> initial_count = 10000000 \<and>
     store w' = outside eng ((store w)(input_path @ ''/raw_data'' \<mapsto> RawData (initial_dataset eng))) \<and>
     store w' (input_path @ ''/raw_data'') = Some (RawData df) \<and>
     read_count = length df \<and>
     (read_count = initial_count \<longleftrightarrow> length df = 10000000) \<and>
     (outside eng ((store w)(input_path @ ''/raw_data'' \<mapsto> RawData (initial_dataset eng)))
        (input_path @ ''/raw_data'') = Some (RawData (initial_dataset eng)) \<longrightarrow>
      df = initial_dataset eng \<and> read_count = initial_count) \<and>
     (fst (run_complex_spark_job eng input_path output_path w) = Inr () \<longrightarrow> 0 < read_count)"
proof -
  note f = write_and_reload_Inr [OF assms]
  have ic: "initial_count = 10000000" using f(1) by (simp add: length_initial_dataset)
  have eq: "read_count = initial_count \<longleftrightarrow> length df = 10000000"
    using f(2) ic by simp
  have same: "df = initial_dataset eng \<and> read_count = initial_count"
    if "outside eng ((store w)(input_path @ ''/raw_data'' \<mapsto> RawData (initial_dataset eng)))
        (input_path @ ''/raw_data'') = Some (RawData (initial_dataset eng))"
    using that f(1,2,4,5) by simp
  have pos: "0 < read_count"
    if "fst (run_complex_spark_job eng input_path output_path w) = Inr ()"
    using that assms
    by (auto simp: run_complex_spark_job_def bind_def raise_def split: if_splits)
  from f(1) ic f(4) f(5) f(2) eq same pos show ?thesis by blast
qed

theorem reload_count_is_stored_count_witness:
  "(case fst (write_and_reload quiet_engine ''s3://bucket/in'' (initial_world Map.empty)) of
      Inr (initial_count, read_count, df) \<Rightarrow>
        initial_count = 10000000 \<and> read_count = initial_count \<and> 0 < read_count \<and>
        df = initial_dataset quiet_engine
    | Inl e \<Rightarrow> False)
   \<and> store (snd (write_and_reload quiet_engine ''s3://bucket/in'' (initial_world Map.empty)))
        ''s3://bucket/in/raw_data'' = Some (RawData (initial_dataset quiet_engine))"
proof -
  from quiet_write_and_reload obtain w1 where
    r: "write_and_reload quiet_engine ''s3://bucket/in'' (initial_world Map.empty)
          = (Inr (length (initial_dataset quiet_engine), length (initial_dataset quiet_engine),
                  initial_dataset quiet_engine), w1)" by blast
  from quiet_run_returns have
    q: "fst (run_complex_spark_job quiet_engine ''s3://bucket/in'' ''s3://bucket/out''
          (initial_world Map.empty)) = Inr ()" by auto
  have o: "outside quiet_engine ((store (initial_world Map.empty))(''s3://bucket/in'' @ ''/raw_data''
        \<mapsto> RawData (initial_dataset quiet_engine))) (''s3://bucket/in'' @ ''/raw_data'')
      = Some (RawData (initial_dataset quiet_engine))"
    by (simp add: quiet_engine_simps)
  from reload_count_is_stored_count [OF r, of "''s3://bucket/out''"] q o
  have "length (initial_dataset quiet_engine) = 10000000"
    and "store w1 (''s3://bucket/in'' @ ''/raw_data'') = Some (RawData (initial_dataset quiet_engine))"
    and "0 < length (initial_dataset quiet_engine)"
    by blast+
  then show ?thesis by (simp add: r)
qed

subsection \<open>The reference dataset: ids 0 to 9,999,999\<close>

lemma smod_1000_nonneg: "0 \<le> k \<Longrightarrow> k smod 1000 = k mod 1000"
  for k :: int
  by (simp add: signed_modulo_int_def sgn_if)

lemma id_col_initial_dataset:
  "map id_col (initial_dataset eng) = spark_range 0 10000000"
  unfolding initial_dataset_def
  by (simp add: case_prod_unfold comp_def map_enumerate_snd [of "\<lambda>k. k"])

lemma value_col_initial_dataset:
  "map value_col (initial_dataset eng) = map (rand_value eng) [0..<10000000]"
  unfolding initial_dataset_def
  using map_enumerate_fst [of "rand_value eng" 0 "spark_range 0 10000000"]
  by (simp add: case_prod_unfold comp_def spark_range_def)

lemma group_col_initial_dataset:
  "map group_col (initial_dataset eng) = map (\<lambda>i. int (i mod 1000)) [0..<10000000]"
  unfolding initial_dataset_def
  by (simp add: case_prod_unfold comp_def map_enumerate_snd [of "\<lambda>k. k smod 1000"]
      spark_range_def smod_1000_nonneg zmod_int)

lemma group_col_ranked_initial:
  "map group_col (ranked_dataset eng (initial_dataset eng))
     = map (\<lambda>i. int (i mod 1000)) [0..<10000000]"
proof -
  have "map (\<lambda>r. id_col r smod 1000) (initial_dataset eng)
          = map (\<lambda>k. k smod 1000) (map id_col (initial_dataset eng))"
    by (simp add: comp_def)
  also have "\<dots> = map (\<lambda>i. int (i mod 1000)) [0..<10000000]"
    by (simp only: id_col_initial_dataset) (simp add: spark_range_def comp_def smod_1000_nonneg zmod_int)
  finally show ?thesis by (simp only: group_col_ranked)
qed

lemma filter_mod_block:
  assumes "j < m"
  shows "length (filter (\<lambda>i. i mod m = j) [m * k..<m * k + m]) = 1"
proof -
  have "[m * k..<m * k + m] = map (\<lambda>i. i + m * k) [0..<m]"
    by (simp add: map_add_upt add.commute)
  then have "filter (\<lambda>i. i mod m = j) [m * k..<m * k + m]
      = map (\<lambda>i. i + m * k) (filter (\<lambda>i. (i + m * k) mod m = j) [0..<m])"
    by (simp add: filter_map comp_def)
  also have "filter (\<lambda>i. (i + m * k) mod m = j) [0..<m] = filter (\<lambda>i. i = j) [0..<m]"
    by (rule filter_cong) auto
  also have "\<dots> = [j]"
    using assms by (simp add: filter_eq_distinct)
  finally show ?thesis by simp
qed

lemma count_mod:
  assumes "j < m"
  shows "length (filter (\<lambda>i. i mod m = j) [0..<m * k]) = k"
proof (induction k)
  case 0
  then show ?case by simp
next
  case (Suc k)
  have "[0..<m * Suc k] = [0..<m * k + m]"
    by (simp only: mult_Suc_right add.commute)
  also have "\<dots> = [0..<m * k] @ [m * k..<m * k + m]"
    by (rule upt_add_eq_append) simp
  finally have "filter (\<lambda>i. i mod m = j) [0..<m * Suc k]
      = filter (\<lambda>i. i mod m = j) [0..<m * k] @ filter (\<lambda>i. i mod m = j) [m * k..<m * k + m]"
    by (simp only: filter_append)
  then have "length (filter (\<lambda>i. i mod m = j) [0..<m * Suc k])
      = length (filter (\<lambda>i. i mod m = j) [0..<m * k])
        + length (filter (\<lambda>i. i mod m = j) [m * k..<m * k + m])"
    by (simp only: length_append)
  then show ?case
    by (simp only: Suc filter_mod_block [OF assms, of k])
qed

lemma count_group_ids:
  assumes "j < 1000"
  shows "count_list (map (\<lambda>i. int (i mod 1000)) [0..<10000000]) (int j) = 10000"
proof -
  have "count_list (map (\<lambda>i. int (i mod 1000)) [0..<10000000]) (int j)
      = length (filter (\<lambda>i. i mod 1000 = j) [0..<10000000])"
    by (simp add: count_list_eq_length_filter filter_map comp_def eq_commute)
  also have "\<dots> = length (filter (\<lambda>i. i mod 1000 = j) [0..<1000 * 10000])"
    by simp
  also have "\<dots> = 10000"
    using assms by (rule count_mod)
  finally show ?thesis .
qed

lemma image_mod_upt:
  fixes m k :: nat
  assumes "0 < m" and "0 < k"
  shows "(\<lambda>i. i mod m) ` {0..<m * k} = {0..<m}"
proof (rule set_eqI, rule iffI)
  fix j assume "j \<in> (\<lambda>i. i mod m) ` {0..<m * k}"
  then show "j \<in> {0..<m}" using assms(1) by auto
next
  fix j assume j: "j \<in> {0..<m}"
  have "m \<le> m * k" using assms(2) by simp
  moreover from j have "j < m" by simp
  ultimately have "j < m * k" by (rule less_le_trans [rotated])
  with j have "j \<in> {0..<m * k}" and "j mod m = j" by simp_all
  then show "j \<in> (\<lambda>i. i mod m) ` {0..<m * k}" by (metis imageI)
qed

lemma set_group_ids:
  "set (map (\<lambda>i. int (i mod 1000)) [0..<10000000]) = {0..<1000}"
proof -
  have "{0..<10000000::nat} = {0..<1000 * 10000}" by simp
  then have "set (map (\<lambda>i. int (i mod 1000)) [0..<10000000])
      = int ` ((\<lambda>i. i mod 1000) ` {0..<1000 * 10000})"
    by (simp only: set_map set_upt image_image)
  also have "\<dots> = int ` {0..<1000}"
    by (subst image_mod_upt) simp_all
  also have "\<dots> = {0..<1000}"
    by (simp add: image_int_atLeastLessThan)
  finally show ?thesis .
qed

lemma faithful_quiet: "faithful_store quiet_engine"
  by (simp add: faithful_store_def quiet_engine_simps)

lemma faithful_run_outputs:
  assumes "faithful_store eng"
    and "run_complex_spark_job eng input_path output_path (initial_world st) = (Inr (), w')"
  shows "store w' (output_path @ ''/sql_results'')
       = Some (SqlResults (complex_data_query eng (ranked_dataset eng (initial_dataset eng))))"
    and "store w' (output_path @ ''/final_results'')
       = Some (FinalResults (final_aggregation (ranked_dataset eng (initial_dataset eng))))"
proof -
  from run_outputs [OF assms(2)] obtain df where
    o: "outside eng (st(input_path @ ''/raw_data'' \<mapsto> RawData (initial_dataset eng)))
       (input_path @ ''/raw_data'') = Some (RawData df)"
    and s: "store w' (output_path @ ''/sql_results'')
       = Some (SqlResults (complex_data_query eng (ranked_dataset eng df)))"
    and f: "store w' (output_path @ ''/final_results'')
       = Some (FinalResults (final_aggregation (ranked_dataset eng df)))"
    by blast
  from assms(1) o have "df = initial_dataset eng"
    by (simp add: faithful_store_def)
  with s f show "store w' (output_path @ ''/sql_results'')
       = Some (SqlResults (complex_data_query eng (ranked_dataset eng (initial_dataset eng))))"
    and "store w' (output_path @ ''/final_results'')
       = Some (FinalResults (final_aggregation (ranked_dataset eng (initial_dataset eng))))"
    by simp_all
qed

lemma set_group_col_ranked_initial:
  "set (map group_col (ranked_dataset eng (initial_dataset eng))) = {0..<1000}"
  by (simp only: group_col_ranked_initial set_group_ids)

lemma length_group_keys_ranked_initial:
  "length (group_keys (ranked_dataset eng (initial_dataset eng))) = 1000"
proof -
  have "length (group_keys (ranked_dataset eng (initial_dataset eng)))
      = card (set (map group_col (ranked_dataset eng (initial_dataset eng))))"
    by (simp only: group_keys_def length_remdups_card_conv)
  also have "\<dots> = card {0..<1000::int}"
    by (simp only: set_group_col_ranked_initial)
  also have "\<dots> = 1000" by simp
  finally show ?thesis .
qed

lemma members_of_group_ranked_initial:
  assumes "0 \<le> g" and "g < 1000"
  shows "length (rows_of_group g (ranked_dataset eng (initial_dataset eng))) = 10000"
proof -
  from assms have "nat g < 1000" and g: "int (nat g) = g" by simp_all
  then have "count_list (map (\<lambda>i. int (i mod 1000)) [0..<10000000]) (int (nat g)) = 10000"
    by (intro count_group_ids)
  then show ?thesis
    by (simp only: length_rows_of_group group_col_ranked_initial g)
qed

subsection \<open>Rows of the final result\<close>

lemma smod_1000_small: "- 1000 < k \<Longrightarrow> k < 1000 \<Longrightarrow> k smod 1000 = k"
  for k :: int
  by (simp add: signed_modulo_int_def sgn_if)

lemma smod_1000_range: "- 999 \<le> k smod 1000 \<and> k smod 1000 \<le> 999"
  for k :: int
proof -
  have a: "0 \<le> j mod 1000 \<and> j mod 1000 \<le> 999" for j :: int
    using pos_mod_bound [of 1000 j] pos_mod_sign [of 1000 j] by simp
  from a [of k] a [of "- k"] show ?thesis
    by (auto simp: signed_modulo_int_def sgn_if abs_if)
qed

lemma length_final_aggregation:
  "length (final_aggregation v) = card (set (map group_col v))"
proof -
  have "length (final_aggregation v) = length (map final_group (final_aggregation v))"
    by simp
  also have "\<dots> = card (set (map group_col v))"
    by (simp only: final_group_aggregation group_keys_def length_remdups_card_conv)
  finally show ?thesis .
qed

lemma final_rows_bound:
  "length (final_aggregation (ranked_dataset eng df)) \<le> 1999"
proof -
  have "set (map group_col (ranked_dataset eng df)) \<subseteq> {- 999..999}"
    using smod_1000_range by (auto simp: group_col_ranked)
  then have "card (set (map group_col (ranked_dataset eng df))) \<le> card {- 999..999::int}"
    by (intro card_mono) simp_all
  then show ?thesis by (simp add: length_final_aggregation)
qed

lemma final_rows_bound_nonneg:
  assumes "\<forall>r \<in> set df. 0 \<le> id_col r"
  shows "length (final_aggregation (ranked_dataset eng df)) \<le> 1000"
proof -
  have "set (map group_col (ranked_dataset eng df)) \<subseteq> {0..999}"
    using assms by (auto simp: group_col_ranked smod_1000_nonneg)
  then have "card (set (map group_col (ranked_dataset eng df))) \<le> card {0..999::int}"
    by (intro card_mono) simp_all
  then show ?thesis by (simp add: length_final_aggregation)
qed

lemma signed_ids_facts:
  "set signed_ids = {- 999..999}" "distinct signed_ids" "length signed_ids = 1999"
proof -
  show "set signed_ids = {- 999..999}" by (simp only: signed_ids_def set_upto)
  show "distinct signed_ids" by (simp only: signed_ids_def distinct_upto)
  have "length signed_ids = nat (999 - (- 999) + 1)" by (simp only: signed_ids_def length_upto)
  then show "length signed_ids = 1999" by simp
qed

lemma signed_ids_engine_simps:
  "fails signed_ids_engine n = False"
  "outside signed_ids_engine st = st(''s3://bucket/in/raw_data'' \<mapsto>
       RawData (map (\<lambda>k. \<lparr>id_col = k, value_col = 0, group_col = k smod 1000\<rparr>) signed_ids))"
  by (simp_all add: signed_ids_engine_def quiet_engine_def)

lemma signed_ids_run_returns:
  "\<exists>w'. run_complex_spark_job signed_ids_engine ''s3://bucket/in'' ''s3://bucket/out''
          (initial_world Map.empty) = (Inr (), w')"
proof (rule run_ok [where df = "map (\<lambda>k. \<lparr>id_col = k, value_col = 0, group_col = k smod 1000\<rparr>)
    signed_ids"])
  show "map (\<lambda>k. \<lparr>id_col = k, value_col = 0, group_col = k smod 1000\<rparr>) signed_ids \<noteq> []"
    using signed_ids_facts(3) by auto
qed (simp_all add: signed_ids_engine_simps)

lemma signed_ids_final_rows:
  "length (final_aggregation (ranked_dataset eng
     (map (\<lambda>k. \<lparr>id_col = k, value_col = 0, group_col = k smod 1000\<rparr>) signed_ids))) = 1999"
proof -
  let ?df = "map (\<lambda>k. \<lparr>id_col = k, value_col = 0, group_col = k smod 1000\<rparr>) signed_ids"
  have "map group_col (ranked_dataset eng ?df) = map (\<lambda>k. k smod 1000) signed_ids"
    by (simp add: group_col_ranked comp_def)
  also have "\<dots> = map (\<lambda>k. k) signed_ids"
    by (rule map_cong) (simp_all add: signed_ids_facts(1) smod_1000_small)
  finally have g: "map group_col (ranked_dataset eng ?df) = signed_ids" by simp
  have "length (final_aggregation (ranked_dataset eng ?df)) = card (set signed_ids)"
    by (simp only: length_final_aggregation g)
  also have "\<dots> = length signed_ids"
    by (rule distinct_card) (rule signed_ids_facts(2))
  finally show ?thesis by (simp only: signed_ids_facts(3))
qed

lemma initial_ids_nonneg: "\<forall>r \<in> set (initial_dataset eng). 0 \<le> id_col r"
proof
  fix r assume "r \<in> set (initial_dataset eng)"
  then have "id_col r \<in> set (map id_col (initial_dataset eng))" by simp
  then have "id_col r \<in> set (spark_range 0 10000000)"
    by (simp only: id_col_initial_dataset)
  then show "0 \<le> id_col r" by (auto simp: spark_range_def)
qed

text \<open>
  C8, as stated: the final result has at most 1000 rows, because group is id mod 1000.
  The column is \<^verbatim>\<open>col("id") % 1000\<close> on the ids read back, and the remainder of a
  negative id is negative. When the location holds the ids -999 to 999 at the re-read,
  the run returns and writes 1999 rows to \<^verbatim>\<open>s3://bucket/out/final_results\<close>.
\<close>

theorem final_results_1999_rows_counterexample:
  "fst (run_complex_spark_job signed_ids_engine ''s3://bucket/in'' ''s3://bucket/out''
          (initial_world Map.empty)) = Inr ()
   \<and> length (final_results_rows (snd (run_complex_spark_job signed_ids_engine ''s3://bucket/in''
          ''s3://bucket/out'' (initial_world Map.empty))) ''s3://bucket/out'') = 1999"
proof -
  from signed_ids_run_returns obtain w' where
    r: "run_complex_spark_job signed_ids_engine ''s3://bucket/in'' ''s3://bucket/out''
          (initial_world Map.empty) = (Inr (), w')" by blast
  from run_outputs [OF r] have
    "store w' (''s3://bucket/out'' @ ''/final_results'')
       = Some (FinalResults (final_aggregation (ranked_dataset signed_ids_engine
           (map (\<lambda>k. \<lparr>id_col = k, value_col = 0, group_col = k smod 1000\<rparr>) signed_ids))))"
    by (auto simp: signed_ids_engine_simps)
  then have "length (final_results_rows w' ''s3://bucket/out'') = 1999"
    by (simp add: final_results_rows_def signed_ids_final_rows)
  then show ?thesis by (simp add: r)
qed

text \<open>
  C8, amended. The dataset written to \<^verbatim>\<open>{output_path}/final_results\<close> by a run that
  returns has exactly one row per distinct group of the ranked dataset, where the group
  of a row is the signed remainder of its id by 1000, the id being the one read back
  from \<^verbatim>\<open>{input_path}/raw_data\<close>. It has at most 1000 rows when the ids read back are
  non-negative, as the generated ids 0 to 9,999,999 are, and at most 1999 rows in any
  case.
\<close>

theorem final_results_one_row_per_group:
  assumes "run_complex_spark_job eng input_path output_path (initial_world st) = (Inr (), w')"
  shows "\<exists>df final_result.
     outside eng (st(input_path @ ''/raw_data'' \<mapsto> RawData (initial_dataset eng)))
       (input_path @ ''/raw_data'') = Some (RawData df) \<and>
     store w' (input_path @ ''/raw_data'') = Some (RawData df) \<and>
     store w' (output_path @ ''/final_results'') = Some (FinalResults final_result) \<and>
     distinct (map final_group final_result) \<and>
     set (map final_group final_result) = set (map group_col (ranked_dataset eng df)) \<and>
     map group_col (ranked_dataset eng df) = map (\<lambda>r. id_col r smod 1000) df \<and>
     length final_result \<le> 1999 \<and>
     ((\<forall>r \<in> set df. 0 \<le> id_col r) \<longrightarrow> length final_result \<le> 1000)"
proof -
  from run_outputs [OF assms] obtain df where
    o: "outside eng (st(input_path @ ''/raw_data'' \<mapsto> RawData (initial_dataset eng)))
       (input_path @ ''/raw_data'') = Some (RawData df)"
    and s: "store w' (input_path @ ''/raw_data'') = Some (RawData df)"
    and f: "store w' (output_path @ ''/final_results'')
       = Some (FinalResults (final_aggregation (ranked_dataset eng df)))"
    by blast
  let ?fr = "final_aggregation (ranked_dataset eng df)"
  have d: "distinct (map final_group ?fr)"
    by (simp add: final_group_aggregation group_keys_def)
  have n: "(\<forall>r \<in> set df. 0 \<le> id_col r) \<longrightarrow> length ?fr \<le> 1000"
    using final_rows_bound_nonneg [of df eng] by blast
  from o s f d set_final_groups [of "ranked_dataset eng df"] group_col_ranked [of eng df]
    final_rows_bound [of eng df] n
  show ?thesis by blast
qed

text \<open>The quiet engine: the ids read back are the generated ones.\<close>

theorem final_results_one_row_per_group_witness:
  "\<exists>final_result.
     store (snd (run_complex_spark_job quiet_engine ''s3://bucket/in'' ''s3://bucket/out''
       (initial_world Map.empty))) ''s3://bucket/out/final_results''
       = Some (FinalResults final_result) \<and>
     length final_result \<le> 1000 \<and> distinct (map final_group final_result)"
proof -
  from quiet_run_returns obtain w' where
    r: "run_complex_spark_job quiet_engine ''s3://bucket/in'' ''s3://bucket/out''
          (initial_world Map.empty) = (Inr (), w')" by blast
  from final_results_one_row_per_group [OF r] obtain df fr where
    o: "outside quiet_engine (Map.empty(''s3://bucket/in'' @ ''/raw_data'' \<mapsto>
          RawData (initial_dataset quiet_engine))) (''s3://bucket/in'' @ ''/raw_data'')
        = Some (RawData df)"
    and f: "store w' (''s3://bucket/out'' @ ''/final_results'') = Some (FinalResults fr)"
    and d: "distinct (map final_group fr)"
    and n: "(\<forall>r \<in> set df. 0 \<le> id_col r) \<longrightarrow> length fr \<le> 1000"
    by blast
  from o have "df = initial_dataset quiet_engine" by (simp add: quiet_engine_simps)
  with n initial_ids_nonneg [of quiet_engine] have "length fr \<le> 1000" by blast
  with f d show ?thesis by (simp add: r)
qed

subsection \<open>The reference run\<close>

text \<open>
  C10. In the reference configuration (ids 0 to 9,999,999, an object store that nobody
  else touches) the groups of the ranked dataset are 0 to 999, each with exactly 10,000
  members, so the filter \<^verbatim>\<open>HAVING count(*) > 100\<close> removes nothing: the datasets written
  to \<^verbatim>\<open>sql_results\<close> and to \<^verbatim>\<open>final_results\<close> by a run that returns both have 1000 rows
  and the groups 0 to 999.
\<close>

theorem reference_run_same_1000_groups:
  assumes "faithful_store eng"
    and "run_complex_spark_job eng input_path output_path (initial_world st) = (Inr (), w')"
  shows "set (map group_col (ranked_dataset eng (initial_dataset eng))) = {0..<1000} \<and>
     (\<forall>g \<in> {0..<1000}.
        length (rows_of_group g (ranked_dataset eng (initial_dataset eng))) = 10000) \<and>
     (\<exists>sql_result final_result.
        store w' (output_path @ ''/sql_results'') = Some (SqlResults sql_result) \<and>
        store w' (output_path @ ''/final_results'') = Some (FinalResults final_result) \<and>
        set (map sql_group sql_result) = {0..<1000} \<and>
        set (map final_group final_result) = {0..<1000} \<and>
        length sql_result = 1000 \<and> length final_result = 1000)"
proof -
  let ?v = "ranked_dataset eng (initial_dataset eng)"
  have big: "100 < length (rows_of_group g ?v)" if "g \<in> set (group_keys ?v)" for g
  proof -
    from that have "g \<in> {0..<1000}"
      using set_group_col_ranked_initial [of eng] by (simp add: group_keys_def)
    then show ?thesis by (simp add: members_of_group_ranked_initial)
  qed
  then have all: "filter (\<lambda>g. 100 < length (rows_of_group g ?v)) (group_keys ?v) = group_keys ?v"
    by (simp add: filter_id_conv)
  have sg: "map sql_group (complex_data_query eng ?v) = sort (group_keys ?v)"
    by (simp only: sql_group_query all)
  then have "length (map sql_group (complex_data_query eng ?v)) = 1000"
    by (simp add: length_group_keys_ranked_initial)
  then have ls: "length (complex_data_query eng ?v) = 1000" by simp
  have "length (map final_group (final_aggregation ?v)) = 1000"
    by (simp only: final_group_aggregation length_group_keys_ranked_initial)
  then have lf: "length (final_aggregation ?v) = 1000" by simp
  have ss: "set (map sql_group (complex_data_query eng ?v)) = {0..<1000}"
    using set_group_col_ranked_initial [of eng] by (simp add: sg group_keys_def)
  have sf: "set (map final_group (final_aggregation ?v)) = {0..<1000}"
    by (simp only: set_final_groups set_group_col_ranked_initial)
  have m: "\<forall>g \<in> {0..<1000}. length (rows_of_group g ?v) = 10000"
    by (simp add: members_of_group_ranked_initial)
  from faithful_run_outputs [OF assms] ls lf ss sf
  have "\<exists>sql_result final_result.
        store w' (output_path @ ''/sql_results'') = Some (SqlResults sql_result) \<and>
        store w' (output_path @ ''/final_results'') = Some (FinalResults final_result) \<and>
        set (map sql_group sql_result) = {0..<1000} \<and>
        set (map final_group final_result) = {0..<1000} \<and>
        length sql_result = 1000 \<and> length final_result = 1000"
    by blast
  with m set_group_col_ranked_initial [of eng] show ?thesis by blast
qed

theorem reference_run_same_1000_groups_witness:
  "faithful_store quiet_engine \<and>
   length (rows_of_group 0 (ranked_dataset quiet_engine (initial_dataset quiet_engine))) = 10000 \<and>
   length (rows_of_group 999 (ranked_dataset quiet_engine (initial_dataset quiet_engine))) = 10000 \<and>
   (\<exists>sql_result final_result.
      store (snd (run_complex_spark_job quiet_engine ''s3://bucket/in'' ''s3://bucket/out''
        (initial_world Map.empty))) ''s3://bucket/out/sql_results'' = Some (SqlResults sql_result) \<and>
      store (snd (run_complex_spark_job quiet_engine ''s3://bucket/in'' ''s3://bucket/out''
        (initial_world Map.empty))) ''s3://bucket/out/final_results''
        = Some (FinalResults final_result) \<and>
      set (map sql_group sql_result) = set (map final_group final_result) \<and>
      length sql_result = 1000 \<and> length final_result = 1000)"
proof -
  let ?v = "ranked_dataset quiet_engine (initial_dataset quiet_engine)"
  from quiet_run_returns obtain w' where
    r: "run_complex_spark_job quiet_engine ''s3://bucket/in'' ''s3://bucket/out''
          (initial_world Map.empty) = (Inr (), w')" by blast
  note t = reference_run_same_1000_groups [OF faithful_quiet r]
  from t have m: "\<forall>g \<in> {0..<1000}. length (rows_of_group g ?v) = 10000" by blast
  from m have m0: "length (rows_of_group 0 ?v) = 10000" by simp
  from m have m9: "length (rows_of_group 999 ?v) = 10000" by simp
  from t obtain sq fr where
    "store w' (''s3://bucket/out'' @ ''/sql_results'') = Some (SqlResults sq)"
    "store w' (''s3://bucket/out'' @ ''/final_results'') = Some (FinalResults fr)"
    "set (map sql_group sq) = {0..<1000}" "set (map final_group fr) = {0..<1000}"
    "length sq = 1000" "length fr = 1000"
    by blast
  then show ?thesis by (simp add: r faithful_quiet m0 m9)
qed

subsection \<open>Two runs of the generation\<close>

text \<open>
  C9. Whatever numbers \<^verbatim>\<open>rand()\<close> draws, the generated dataset has 10,000,000 rows,
  the same ids and the same group column, which is id mod 1000 row by row: two runs of
  the generation agree on the row count and on the distribution of groups. The value
  column is the one that depends on the draw: the two sample engines differ in it.
\<close>

theorem generation_same_count_and_groups:
  "length (initial_dataset eng1) = 10000000 \<and>
   length (initial_dataset eng2) = 10000000 \<and>
   map id_col (initial_dataset eng1) = map id_col (initial_dataset eng2) \<and>
   map group_col (initial_dataset eng1) = map group_col (initial_dataset eng2) \<and>
   map group_col (initial_dataset eng1) = map (\<lambda>k. k mod 1000) (map id_col (initial_dataset eng1)) \<and>
   map value_col (initial_dataset quiet_engine) \<noteq> map value_col (initial_dataset other_engine)"
proof -
  have v: "map value_col (initial_dataset quiet_engine) \<noteq> map value_col (initial_dataset other_engine)"
  proof
    assume "map value_col (initial_dataset quiet_engine) = map value_col (initial_dataset other_engine)"
    then have "map (rand_value quiet_engine) [0..<10000000] = map (rand_value other_engine) [0..<10000000]"
      by (simp only: value_col_initial_dataset)
    then have "replicate 10000000 (0::real) = replicate 10000000 (1 / 2)"
      by (simp add: quiet_engine_def other_engine_def map_replicate_const)
    then show False by (simp add: replicate_eq_replicate)
  qed
  have h: "map (\<lambda>k. k mod 1000) (spark_range 0 10000000) = map (\<lambda>i. int (i mod 1000)) [0..<10000000]"
    by (simp add: spark_range_def comp_def zmod_int)
  have g: "map group_col (initial_dataset eng1)
      = map (\<lambda>k. k mod 1000) (map id_col (initial_dataset eng1))"
    by (simp only: group_col_initial_dataset id_col_initial_dataset h)
  show ?thesis
    using v g
    by (simp only: length_initial_dataset id_col_initial_dataset group_col_initial_dataset
        simp_thms)
qed

end
